theory Spec2Isabelle
  imports Complex_Main
begin

section \<open>Numbers\<close>

text \<open>
  The sketches compute with JavaScript numbers. They are modelled as mathematical reals:
  every arithmetic operator, \<open>Math.sqrt\<close>, \<open>Math.sin\<close> and \<open>Math.PI\<close> is read as its exact
  counterpart, so rounding in the last binary digit is outside the model. The grid
  half-extent \<open>dimension\<close> is an integer (the control panel offers it with step 1), and the
  loop counters running from \<open>-dimension\<close> are integers as well.

  Two properties of the real numbers are therefore not properties of the sketches, and
  nothing below rests on them. The real sine has the period \<open>2 * pi\<close>, while
  \<open>Math.sin (2 * (r + playhead) * Math.PI)\<close> in doubles is not the same number for a playhead
  and for the playhead plus 1, so nothing is stated about frames one period apart. And a
  depth that the doubles put one rounding step beside 0.33 or 0.66 can fall into the
  neighbouring colour bucket of the one the reals give; the colour is always the bucket
  of the depth as the arithmetic at hand computes it.
\<close>

text \<open>
  The remainder operator \<open>a % b\<close> of JavaScript takes the sign of the dividend:
  \<open>a - b * trunc (a / b)\<close>.
\<close>

definition trunc :: "real \<Rightarrow> int" where
  "trunc v = (if 0 \<le> v then \<lfloor>v\<rfloor> else \<lceil>v\<rceil>)"

definition jsmod :: "real \<Rightarrow> real \<Rightarrow> real" where
  "jsmod a b = a - b * of_int (trunc (a / b))"

text \<open>\<open>const clamp = (value, min, max) => Math.min(Math.max(value, min), max)\<close>\<close>

definition clamp :: "real \<Rightarrow> real \<Rightarrow> real \<Rightarrow> real" where
  "clamp v lo hi = min (max v lo) hi"

section \<open>Parameters\<close>

text \<open>
  \<open>PaneParams\<close> is the type of the object \<open>paneParams\<close> of \<open>main.ts\<close>. The animated sketch
  without a scrub slider keeps \<open>duration\<close> in the same object, so its parameter type is the
  extension \<open>PaneParamsD\<close>; the drawing functions, whose text is the same in both sketches,
  are defined once for every extension of \<open>PaneParams\<close>.
\<close>

record PaneParams =
  height :: real
  width :: real
  dimension :: int
  gapModifier :: real
  depthScalar :: real
  baseSize :: real
  color1 :: string
  color2 :: string
  color3 :: string
  color4 :: string

record PaneParamsD = PaneParams +
  duration :: real

definition paneParams :: PaneParams where
  "paneParams = \<lparr> height = 640, width = 640, dimension = 32, gapModifier = 0.1,
     depthScalar = 1, baseSize = 5,
     color1 = ''#222831'', color2 = ''#393e46'', color3 = ''#00ADB5'', color4 = ''#EEEEEE'' \<rparr>"

definition paneParamsD :: PaneParamsD where
  "paneParamsD = \<lparr> height = 640, width = 640, dimension = 32, gapModifier = 0.1,
     depthScalar = 1, baseSize = 5,
     color1 = ''#222831'', color2 = ''#393e46'', color3 = ''#00ADB5'', color4 = ''#EEEEEE'',
     duration = 5 \<rparr>"

section \<open>Projection\<close>

definition projectX :: "real \<Rightarrow> real \<Rightarrow> real" where
  "projectX w normalizedX = (w / 2) * (1 + normalizedX)"

definition projectY :: "real \<Rightarrow> real \<Rightarrow> real" where
  "projectY h normalizedY = (1 - normalizedY) * (h / 2)"

text \<open>
  The interface \<open>Vector\<close> has the fields \<open>x\<close>, \<open>y\<close>, \<open>z\<close>, and \<open>projectVector\<close> returns an object
  with the fields \<open>x\<close>, \<open>y\<close>, \<open>h\<close>, \<open>w\<close>. The selectors carry a prefix here, so that the one-letter
  names stay free for variables.
\<close>

record Vector =
  vec_x :: real
  vec_y :: real
  vec_z :: real

record Projected =
  proj_x :: real
  proj_y :: real
  proj_h :: real
  proj_w :: real

definition projectVector :: "Vector \<Rightarrow> 'a PaneParams_scheme \<Rightarrow> Projected" where
  "projectVector v params =
     (let h = vec_z v * depthScalar params * baseSize params;
          w = vec_z v * depthScalar params * baseSize params
      in \<lparr> proj_x = projectX (width params) (vec_x v),
           proj_y = projectY (height params) (vec_y v),
           proj_h = h,
           proj_w = w \<rparr>)"

section \<open>The drawing surface\<close>

text \<open>
  The canvas and its 2d context are mutated in place. The model passes the surface along
  explicitly, as the list of the operations performed on it so far, oldest first.
\<close>

datatype canvas_op =
    SetCanvasHeight real
  | SetCanvasWidth real
  | SetFillStyle string
  | FillRect real real real real
  | BeginPath
  | Arc real real real real real bool
  | Fill

type_synonym surface = "canvas_op list"

definition drawCircle :: "surface \<Rightarrow> real \<Rightarrow> real \<Rightarrow> real \<Rightarrow> string \<Rightarrow> surface" where
  "drawCircle context cx cy radius color =
     context @ [BeginPath, Arc cx cy radius 0 (2 * pi) False, SetFillStyle color, Fill]"

definition drawVector :: "surface \<Rightarrow> 'a PaneParams_scheme \<Rightarrow> Vector \<Rightarrow> surface" where
  "drawVector context params v =
     (let projectV = projectVector v params;
          color = (if vec_z v < 0.33 then color1 params
                   else if vec_z v < 0.66 then color2 params
                   else color3 params)
      in drawCircle context (proj_x projectV) (proj_y projectV) (proj_w projectV / 2) color)"

section \<open>The renderer\<close>

text \<open>
  The body of the subscriber that receives a parameter snapshot and a playhead. The two
  \<open>for\<close> loops become two recursive functions over the loop counter; \<open>cellVector\<close> is the
  body of the inner loop up to the call of \<open>drawVector\<close>.
\<close>

definition cellVector :: "'a PaneParams_scheme \<Rightarrow> real \<Rightarrow> int \<Rightarrow> int \<Rightarrow> Vector" where
  "cellVector vals playhead i j =
     (let x = real_of_int i / real_of_int (dimension vals);
          y = real_of_int j / real_of_int (dimension vals);
          r = sqrt (x ^ 2 + y ^ 2) / sqrt 2;
          t = sin (2 * (r + playhead) * pi)
      in \<lparr> vec_x = x, vec_y = y * ((t + r) / 2), vec_z = r \<rparr>)"

function innerLoop :: "surface \<Rightarrow> 'a PaneParams_scheme \<Rightarrow> real \<Rightarrow> int \<Rightarrow> int \<Rightarrow> surface" where
  "innerLoop context vals playhead i j =
     (if j < dimension vals
      then innerLoop (drawVector context vals (cellVector vals playhead i j)) vals playhead i (j + 1)
      else context)"
  by pat_completeness auto
termination
  by (relation "measure (\<lambda>(context, vals, playhead, i, j). nat (dimension vals - j))") auto

function outerLoop :: "surface \<Rightarrow> 'a PaneParams_scheme \<Rightarrow> real \<Rightarrow> int \<Rightarrow> surface" where
  "outerLoop context vals playhead i =
     (if i < dimension vals
      then outerLoop (innerLoop context vals playhead i (- dimension vals)) vals playhead (i + 1)
      else context)"
  by pat_completeness auto
termination
  by (relation "measure (\<lambda>(context, vals, playhead, i). nat (dimension vals - i))") auto

text \<open>
  Both loops unfold without a condition, so their equations are not simplification rules;
  they are applied by hand where a proof follows the loop.
\<close>

declare innerLoop.simps [simp del] outerLoop.simps [simp del]

definition render :: "surface \<Rightarrow> 'a PaneParams_scheme \<Rightarrow> real \<Rightarrow> surface" where
  "render context vals playhead =
     outerLoop
       (context @ [SetCanvasHeight (height vals), SetCanvasWidth (width vals),
                   SetFillStyle (color1 vals), FillRect 0 0 (width vals) (height vals)])
       vals playhead (- dimension vals)"

section \<open>The field generator\<close>

text \<open>
  The specification names the points of one frame the field generator. In the code they are
  the vectors handed to \<open>drawVector\<close> inside the two loops, so there is no function of that
  name to translate; \<open>fieldPoint\<close> and \<open>fieldPoints\<close> follow the words of the specification
  and are compared with the loops below.
\<close>

definition fieldPoint :: "int \<Rightarrow> real \<Rightarrow> int \<Rightarrow> int \<Rightarrow> Vector" where
  "fieldPoint D p i j =
     (let r = sqrt ((real_of_int i / real_of_int D) ^ 2 + (real_of_int j / real_of_int D) ^ 2) / sqrt 2;
          t = sin (2 * pi * (r + p))
      in \<lparr> vec_x = real_of_int i / real_of_int D,
           vec_y = (real_of_int j / real_of_int D) * ((t + r) / 2),
           vec_z = r \<rparr>)"

definition fieldPoints :: "int \<Rightarrow> real \<Rightarrow> Vector list" where
  "fieldPoints D p = [fieldPoint D p i j. i \<leftarrow> [- D..D - 1], j \<leftarrow> [- D..D - 1]]"

section \<open>The parameter stream\<close>

text \<open>
  \<open>Partial<PaneParams>\<close>: every field may be absent. \<open>updatePaneParam (key, value)\<close> sends the
  object \<open>{ [key]: value }\<close> to \<open>controlSubject\<close>; the value has the type of the field the
  key names, so an edit is one constructor for each key.
\<close>

record PanePartial =
  height_opt :: "real option"
  width_opt :: "real option"
  dimension_opt :: "int option"
  gapModifier_opt :: "real option"
  depthScalar_opt :: "real option"
  baseSize_opt :: "real option"
  color1_opt :: "string option"
  color2_opt :: "string option"
  color3_opt :: "string option"
  color4_opt :: "string option"

datatype PaneEdit =
    EditHeight real
  | EditWidth real
  | EditDimension int
  | EditGapModifier real
  | EditDepthScalar real
  | EditBaseSize real
  | EditColor1 string
  | EditColor2 string
  | EditColor3 string
  | EditColor4 string

text \<open>The object \<open>{}\<close>, the initial value of the \<open>BehaviorSubject\<close>.\<close>

definition emptyPartial :: PanePartial where
  "emptyPartial = \<lparr> height_opt = None, width_opt = None, dimension_opt = None,
     gapModifier_opt = None, depthScalar_opt = None, baseSize_opt = None,
     color1_opt = None, color2_opt = None, color3_opt = None, color4_opt = None \<rparr>"

fun updatePaneParam :: "PaneEdit \<Rightarrow> PanePartial" where
  "updatePaneParam (EditHeight v) = emptyPartial\<lparr>height_opt := Some v\<rparr>"
| "updatePaneParam (EditWidth v) = emptyPartial\<lparr>width_opt := Some v\<rparr>"
| "updatePaneParam (EditDimension v) = emptyPartial\<lparr>dimension_opt := Some v\<rparr>"
| "updatePaneParam (EditGapModifier v) = emptyPartial\<lparr>gapModifier_opt := Some v\<rparr>"
| "updatePaneParam (EditDepthScalar v) = emptyPartial\<lparr>depthScalar_opt := Some v\<rparr>"
| "updatePaneParam (EditBaseSize v) = emptyPartial\<lparr>baseSize_opt := Some v\<rparr>"
| "updatePaneParam (EditColor1 v) = emptyPartial\<lparr>color1_opt := Some v\<rparr>"
| "updatePaneParam (EditColor2 v) = emptyPartial\<lparr>color2_opt := Some v\<rparr>"
| "updatePaneParam (EditColor3 v) = emptyPartial\<lparr>color3_opt := Some v\<rparr>"
| "updatePaneParam (EditColor4 v) = emptyPartial\<lparr>color4_opt := Some v\<rparr>"

text \<open>The reducer \<open>(acc, curr) => ({ ...acc, ...curr })\<close>: a field present in \<open>curr\<close> (here \<open>cur\<close>) wins.\<close>

definition spread :: "PaneParams \<Rightarrow> PanePartial \<Rightarrow> PaneParams" where
  "spread acc cur =
     \<lparr> height = (case height_opt cur of None \<Rightarrow> height acc | Some v \<Rightarrow> v),
       width = (case width_opt cur of None \<Rightarrow> width acc | Some v \<Rightarrow> v),
       dimension = (case dimension_opt cur of None \<Rightarrow> dimension acc | Some v \<Rightarrow> v),
       gapModifier = (case gapModifier_opt cur of None \<Rightarrow> gapModifier acc | Some v \<Rightarrow> v),
       depthScalar = (case depthScalar_opt cur of None \<Rightarrow> depthScalar acc | Some v \<Rightarrow> v),
       baseSize = (case baseSize_opt cur of None \<Rightarrow> baseSize acc | Some v \<Rightarrow> v),
       color1 = (case color1_opt cur of None \<Rightarrow> color1 acc | Some v \<Rightarrow> v),
       color2 = (case color2_opt cur of None \<Rightarrow> color2 acc | Some v \<Rightarrow> v),
       color3 = (case color3_opt cur of None \<Rightarrow> color3 acc | Some v \<Rightarrow> v),
       color4 = (case color4_opt cur of None \<Rightarrow> color4 acc | Some v \<Rightarrow> v) \<rparr>"

text \<open>
  The operator \<open>scan (f, seed)\<close> emits one accumulated value for every value it receives and
  does not emit the seed.
\<close>

fun scan :: "('b \<Rightarrow> 'a \<Rightarrow> 'b) \<Rightarrow> 'b \<Rightarrow> 'a list \<Rightarrow> 'b list" where
  "scan f acc [] = []"
| "scan f acc (v # vs) = f acc v # scan f (f acc v) vs"

text \<open>
  \<open>values$\<close> for a sequence of edits made in the control panel: the subject first replays
  \<open>{}\<close>, then passes on one object for each edit.
\<close>

definition controlSubject :: "PaneEdit list \<Rightarrow> PanePartial list" where
  "controlSubject edits = emptyPartial # map updatePaneParam edits"

definition values_stream :: "PaneEdit list \<Rightarrow> PaneParams list" where
  "values_stream edits = scan spread paneParams (controlSubject edits)"

text \<open>
  Reading and writing one field by its key, to state what an edit does to a snapshot.
\<close>

datatype PaneKey =
    KHeight | KWidth | KDimension | KGapModifier | KDepthScalar | KBaseSize
  | KColor1 | KColor2 | KColor3 | KColor4

datatype PaneVal = NumV real | IntV int | StrV string

fun edit_key :: "PaneEdit \<Rightarrow> PaneKey" where
  "edit_key (EditHeight v) = KHeight"
| "edit_key (EditWidth v) = KWidth"
| "edit_key (EditDimension v) = KDimension"
| "edit_key (EditGapModifier v) = KGapModifier"
| "edit_key (EditDepthScalar v) = KDepthScalar"
| "edit_key (EditBaseSize v) = KBaseSize"
| "edit_key (EditColor1 v) = KColor1"
| "edit_key (EditColor2 v) = KColor2"
| "edit_key (EditColor3 v) = KColor3"
| "edit_key (EditColor4 v) = KColor4"

fun edit_val :: "PaneEdit \<Rightarrow> PaneVal" where
  "edit_val (EditHeight v) = NumV v"
| "edit_val (EditWidth v) = NumV v"
| "edit_val (EditDimension v) = IntV v"
| "edit_val (EditGapModifier v) = NumV v"
| "edit_val (EditDepthScalar v) = NumV v"
| "edit_val (EditBaseSize v) = NumV v"
| "edit_val (EditColor1 v) = StrV v"
| "edit_val (EditColor2 v) = StrV v"
| "edit_val (EditColor3 v) = StrV v"
| "edit_val (EditColor4 v) = StrV v"

fun field_of :: "PaneKey \<Rightarrow> PaneParams \<Rightarrow> PaneVal" where
  "field_of KHeight s = NumV (height s)"
| "field_of KWidth s = NumV (width s)"
| "field_of KDimension s = IntV (dimension s)"
| "field_of KGapModifier s = NumV (gapModifier s)"
| "field_of KDepthScalar s = NumV (depthScalar s)"
| "field_of KBaseSize s = NumV (baseSize s)"
| "field_of KColor1 s = StrV (color1 s)"
| "field_of KColor2 s = StrV (color2 s)"
| "field_of KColor3 s = StrV (color3 s)"
| "field_of KColor4 s = StrV (color4 s)"

fun write_field :: "PaneEdit \<Rightarrow> PaneParams \<Rightarrow> PaneParams" where
  "write_field (EditHeight v) s = s\<lparr>height := v\<rparr>"
| "write_field (EditWidth v) s = s\<lparr>width := v\<rparr>"
| "write_field (EditDimension v) s = s\<lparr>dimension := v\<rparr>"
| "write_field (EditGapModifier v) s = s\<lparr>gapModifier := v\<rparr>"
| "write_field (EditDepthScalar v) s = s\<lparr>depthScalar := v\<rparr>"
| "write_field (EditBaseSize v) s = s\<lparr>baseSize := v\<rparr>"
| "write_field (EditColor1 v) s = s\<lparr>color1 := v\<rparr>"
| "write_field (EditColor2 v) s = s\<lparr>color2 := v\<rparr>"
| "write_field (EditColor3 v) s = s\<lparr>color3 := v\<rparr>"
| "write_field (EditColor4 v) s = s\<lparr>color4 := v\<rparr>"

text \<open>The value the last edit of key \<open>k\<close> wrote, or the default when no edit names \<open>k\<close>.\<close>

definition last_write :: "PaneKey \<Rightarrow> PaneEdit list \<Rightarrow> PaneVal" where
  "last_write k edits =
     (case filter (\<lambda>e. edit_key e = k) (rev edits) of
        [] \<Rightarrow> field_of k paneParams
      | e # _ \<Rightarrow> edit_val e)"

text \<open>
  At run time the snapshots are plain objects, and the types are erased: a spread copies
  the fields its operands have. \<open>spreadObj\<close> is the same reducer read on objects whose fields
  may be absent, \<open>objOf\<close> is the object of a typed snapshot, and \<open>populated\<close> says that no
  field is absent. \<open>values_objects\<close> is \<open>values$\<close> in this reading.
\<close>

definition spreadObj :: "PanePartial \<Rightarrow> PanePartial \<Rightarrow> PanePartial" where
  "spreadObj acc cur =
     \<lparr> height_opt = (case height_opt cur of None \<Rightarrow> height_opt acc | Some v \<Rightarrow> Some v),
       width_opt = (case width_opt cur of None \<Rightarrow> width_opt acc | Some v \<Rightarrow> Some v),
       dimension_opt = (case dimension_opt cur of None \<Rightarrow> dimension_opt acc | Some v \<Rightarrow> Some v),
       gapModifier_opt =
         (case gapModifier_opt cur of None \<Rightarrow> gapModifier_opt acc | Some v \<Rightarrow> Some v),
       depthScalar_opt =
         (case depthScalar_opt cur of None \<Rightarrow> depthScalar_opt acc | Some v \<Rightarrow> Some v),
       baseSize_opt = (case baseSize_opt cur of None \<Rightarrow> baseSize_opt acc | Some v \<Rightarrow> Some v),
       color1_opt = (case color1_opt cur of None \<Rightarrow> color1_opt acc | Some v \<Rightarrow> Some v),
       color2_opt = (case color2_opt cur of None \<Rightarrow> color2_opt acc | Some v \<Rightarrow> Some v),
       color3_opt = (case color3_opt cur of None \<Rightarrow> color3_opt acc | Some v \<Rightarrow> Some v),
       color4_opt = (case color4_opt cur of None \<Rightarrow> color4_opt acc | Some v \<Rightarrow> Some v) \<rparr>"

definition objOf :: "PaneParams \<Rightarrow> PanePartial" where
  "objOf s =
     \<lparr> height_opt = Some (height s), width_opt = Some (width s),
       dimension_opt = Some (dimension s), gapModifier_opt = Some (gapModifier s),
       depthScalar_opt = Some (depthScalar s), baseSize_opt = Some (baseSize s),
       color1_opt = Some (color1 s), color2_opt = Some (color2 s),
       color3_opt = Some (color3 s), color4_opt = Some (color4 s) \<rparr>"

definition populated :: "PanePartial \<Rightarrow> bool" where
  "populated obj \<longleftrightarrow>
     height_opt obj \<noteq> None \<and> width_opt obj \<noteq> None \<and> dimension_opt obj \<noteq> None \<and>
     gapModifier_opt obj \<noteq> None \<and> depthScalar_opt obj \<noteq> None \<and> baseSize_opt obj \<noteq> None \<and>
     color1_opt obj \<noteq> None \<and> color2_opt obj \<noteq> None \<and> color3_opt obj \<noteq> None \<and>
     color4_opt obj \<noteq> None"

definition values_objects :: "PaneEdit list \<Rightarrow> PanePartial list" where
  "values_objects edits = scan spreadObj (objOf paneParams) (controlSubject edits)"

section \<open>The playhead of the sketch with scrub sliders\<close>

text \<open>
  \<open>Math.atan2 (y, x)\<close> is a function of the host, not of the repository: the angle of the
  point \<open>(x, y)\<close>, between \<open>-pi\<close> and \<open>pi\<close>.
\<close>

definition atan2 :: "real \<Rightarrow> real \<Rightarrow> real" where
  "atan2 y x =
     (if 0 < x then arctan (y / x)
      else if x < 0 then (if 0 \<le> y then arctan (y / x) + pi else arctan (y / x) - pi)
      else if 0 < y then pi / 2
      else if y < 0 then - (pi / 2)
      else 0)"

text \<open>
  The value the linear slider sends for a mouse event at \<open>clientX\<close>, when the bounding
  rectangle of the slider starts at \<open>left\<close> and is \<open>w\<close> wide.
\<close>

definition sliderValueOf :: "real \<Rightarrow> real \<Rightarrow> real \<Rightarrow> real" where
  "sliderValueOf clientX left w = clamp ((clientX - left) / w) 0 1"

text \<open>The value the circular slider sends for a mouse event at \<open>(clientX, clientY)\<close>.\<close>

definition indicatorValueOf :: "real \<Rightarrow> real \<Rightarrow> real \<Rightarrow> real \<Rightarrow> real \<Rightarrow> real \<Rightarrow> real" where
  "indicatorValueOf clientX clientY left w tp h =
     (let pivotX = left + (w / 2);
          pivotY = tp + (h / 2);
          deltaX = pivotX - clientX;
          deltaY = pivotY - clientY
      in jsmod (atan2 deltaY deltaX / (2 * pi) + 0.75) 1)"

text \<open>
  The playhead of one animation frame:
  \<open>(sliderValue + (elapsed % (duration * 1000)) / (duration * 1000)) % 1\<close>.
\<close>

definition framePlayhead :: "real \<Rightarrow> real \<Rightarrow> real \<Rightarrow> real" where
  "framePlayhead sliderValue dur elapsed =
     jsmod (sliderValue + jsmod elapsed (dur * 1000) / (dur * 1000)) 1"

text \<open>
  \<open>frame$\<close> is a \<open>switchMap\<close> over the slider value around a \<open>switchMap\<close> over the timeline
  parameters. What it emits is decided by the latest slider value and the latest duration,
  which are the state here; the events are the values its sources deliver:
  \<^item> a mouse event on the linear slider or on the circular slider (a press, or a move while
    the button is down), with the bounding rectangle read at that moment;
  \<^item> a change of \<open>duration\<close> in the control panel;
  \<^item> an animation frame, with the time \<open>elapsed\<close> since \<open>animationFrames ()\<close> was subscribed,
    which \<open>switchMap\<close> does anew whenever a slider value or a duration arrives. No frame is
    delivered while the duration is 0, since nothing is subscribed to the frames then.
  The step returns the new state and the playheads emitted.
\<close>

datatype frame_event =
    SliderMouse real real real
  | CircleMouse real real real real real real
  | TimelineChange real
  | AnimationFrame real

record frame_state =
  cur_slider :: real
  cur_duration :: real

text \<open>\<open>duration === 0 ? of (sliderValue) : animationFrames ()...\<close> at the moment of subscription.\<close>

definition frame_emit :: "real \<Rightarrow> real \<Rightarrow> real list" where
  "frame_emit sliderValue dur = (if dur = 0 then [sliderValue] else [])"

fun frame_step :: "frame_state \<Rightarrow> frame_event \<Rightarrow> frame_state \<times> real list" where
  "frame_step st (SliderMouse clientX left w) =
     (let v = sliderValueOf clientX left w
      in (st\<lparr>cur_slider := v\<rparr>, frame_emit v (cur_duration st)))"
| "frame_step st (CircleMouse clientX clientY left w tp h) =
     (let v = indicatorValueOf clientX clientY left w tp h
      in (st\<lparr>cur_slider := v\<rparr>, frame_emit v (cur_duration st)))"
| "frame_step st (TimelineChange d) =
     (st\<lparr>cur_duration := d\<rparr>, frame_emit (cur_slider st) d)"
| "frame_step st (AnimationFrame elapsed) =
     (st, if cur_duration st = 0 then []
          else [framePlayhead (cur_slider st) (cur_duration st) elapsed])"

fun frame_run :: "frame_state \<Rightarrow> frame_event list \<Rightarrow> real list" where
  "frame_run st [] = []"
| "frame_run st (ev # evs) = snd (frame_step st ev) @ frame_run (fst (frame_step st ev)) evs"

text \<open>
  At the start the slider value is \<open>of (0)\<close> and \<open>timelineParams.duration\<close> is 0, so the first
  playhead is emitted at once.
\<close>

definition frame_init :: frame_state where
  "frame_init = \<lparr> cur_slider = 0, cur_duration = 0 \<rparr>"

definition frame_stream :: "frame_event list \<Rightarrow> real list" where
  "frame_stream evs =
     frame_emit (cur_slider frame_init) (cur_duration frame_init) @ frame_run frame_init evs"

text \<open>
  The events the page can deliver: a slider that is laid out has a positive width, the
  control panel offers no negative duration, and elapsed time is not negative. (A slider of
  width 0 would make the quotient \<open>NaN\<close> or infinite in JavaScript, values the reals do not
  have; the remainder by \<open>duration * 1000\<close> is only taken behind the test \<open>duration === 0\<close>.)
\<close>

fun frame_event_ok :: "frame_event \<Rightarrow> bool" where
  "frame_event_ok (SliderMouse clientX left w) = (0 < w)"
| "frame_event_ok (CircleMouse clientX clientY left w tp h) = True"
| "frame_event_ok (TimelineChange d) = (0 \<le> d)"
| "frame_event_ok (AnimationFrame elapsed) = (0 \<le> elapsed)"

text \<open>
  To speak of a whole run: the scrub value after a sequence of events is the value the
  latest slider event delivered (0 when there was none), the duration is the one of the
  latest change in the control panel (0 when there was none), and \<open>frame_state_after\<close> is the
  state the steps leave behind.
\<close>

fun slider_event_value :: "frame_event \<Rightarrow> real option" where
  "slider_event_value (SliderMouse clientX left w) = Some (sliderValueOf clientX left w)"
| "slider_event_value (CircleMouse clientX clientY left w tp h) =
     Some (indicatorValueOf clientX clientY left w tp h)"
| "slider_event_value (TimelineChange d) = None"
| "slider_event_value (AnimationFrame elapsed) = None"

fun timeline_event_value :: "frame_event \<Rightarrow> real option" where
  "timeline_event_value (TimelineChange d) = Some d"
| "timeline_event_value _ = None"

definition scrub_value :: "frame_event list \<Rightarrow> real" where
  "scrub_value evs =
     (case List.map_filter slider_event_value (rev evs) of [] \<Rightarrow> 0 | v # _ \<Rightarrow> v)"

definition latest_duration :: "frame_event list \<Rightarrow> real" where
  "latest_duration evs =
     (case List.map_filter timeline_event_value (rev evs) of [] \<Rightarrow> 0 | d # _ \<Rightarrow> d)"

fun frame_state_after :: "frame_state \<Rightarrow> frame_event list \<Rightarrow> frame_state" where
  "frame_state_after st [] = st"
| "frame_state_after st (ev # evs) = frame_state_after (fst (frame_step st ev)) evs"

section \<open>The playhead of the sketch without scrub sliders\<close>








section \<open>Invariants of the two playhead pipelines\<close>



section \<open>Observing the surface\<close>

text \<open>Which operations paint: the rectangle fill and the fill of the current path.\<close>

fun is_FillRect :: "canvas_op \<Rightarrow> bool" where
  "is_FillRect (FillRect x y w h) = True"
| "is_FillRect _ = False"

fun is_Fill :: "canvas_op \<Rightarrow> bool" where
  "is_Fill Fill = True"
| "is_Fill _ = False"

text \<open>
  The parameters of the end-to-end example of the specification; the fields it leaves open
  keep their defaults.
\<close>

definition example_params :: PaneParams where
  "example_params = \<lparr> height = 640, width = 640, dimension = 1, gapModifier = 0.1,
     depthScalar = 1, baseSize = 5,
     color1 = ''#000'', color2 = ''#111'', color3 = ''#222'', color4 = ''#EEEEEE'' \<rparr>"

section \<open>The loops as folds\<close>

lemma cellVector_fieldPoint: "cellVector vals p i j = fieldPoint (dimension vals) p i j"
proof -
  have eq: "2 * (r + p) * pi = 2 * pi * (r + p)" for r :: real
    by simp
  show ?thesis
    unfolding cellVector_def fieldPoint_def Let_def eq by (rule refl)
qed

lemma innerLoop_foldl:
  "innerLoop ctx vals p i j =
     foldl (\<lambda>c k. drawVector c vals (cellVector vals p i k)) ctx [j..dimension vals - 1]"
proof (induction ctx vals p i j rule: innerLoop.induct)
  case (1 ctx vals playhead i j)
  show ?case
  proof (cases "j < dimension vals")
    case True
    then have "[j..dimension vals - 1] = j # [j + 1..dimension vals - 1]"
      by (simp add: upto_rec1)
    with True 1 show ?thesis by (subst innerLoop.simps) simp
  next
    case False
    then show ?thesis by (subst innerLoop.simps) simp
  qed
qed

lemma outerLoop_foldl:
  "outerLoop ctx vals p i =
     foldl (\<lambda>c k. innerLoop c vals p k (- dimension vals)) ctx [i..dimension vals - 1]"
proof (induction ctx vals p i rule: outerLoop.induct)
  case (1 ctx vals playhead i)
  show ?case
  proof (cases "i < dimension vals")
    case True
    then have "[i..dimension vals - 1] = i # [i + 1..dimension vals - 1]"
      by (simp add: upto_rec1)
    with True 1 show ?thesis by (subst outerLoop.simps) simp
  next
    case False
    then show ?thesis by (subst outerLoop.simps) simp
  qed
qed

lemma foldl_nested:
  "foldl f a (concat (map (\<lambda>i. map (F i) js) is)) =
     foldl (\<lambda>c i. foldl (\<lambda>c j. f c (F i j)) c js) a is"
  by (induction "is" arbitrary: a) (simp_all add: foldl_map)

lemma outerLoop_fieldPoints:
  "outerLoop ctx vals p (- dimension vals) =
     foldl (\<lambda>c v. drawVector c vals v) ctx (fieldPoints (dimension vals) p)"
  unfolding fieldPoints_def foldl_nested outerLoop_foldl innerLoop_foldl cellVector_fieldPoint
  by (rule refl)

lemma length_fieldPoints: "0 \<le> D \<Longrightarrow> int (length (fieldPoints D p)) = (2 * D) ^ 2"
  by (simp add: fieldPoints_def length_concat comp_def sum_list_triv power2_eq_square)

lemma fieldPoints_one:
  "fieldPoints 1 p =
     [fieldPoint 1 p (- 1) (- 1), fieldPoint 1 p (- 1) 0, fieldPoint 1 p 0 (- 1), fieldPoint 1 p 0 0]"
  by (simp add: fieldPoints_def upto_rec_numeral upto.simps)

lemma nth_concat_rows:
  "\<forall>xs \<in> set xss. length xs = n \<Longrightarrow> a < length xss \<Longrightarrow> b < n \<Longrightarrow>
     concat xss ! (a * n + b) = xss ! a ! b"
proof (induction xss arbitrary: a)
  case Nil
  then show ?case by simp
next
  case (Cons xs xss)
  show ?case
  proof (cases a)
    case 0
    with Cons.prems show ?thesis by (simp add: nth_append)
  next
    case (Suc a')
    with Cons.prems have "concat xss ! (a' * n + b) = xss ! a' ! b"
      by (intro Cons.IH) auto
    with Suc Cons.prems show ?thesis by (simp add: nth_append)
  qed
qed

lemma nth_upto_row: "a < nat (2 * D) \<Longrightarrow> [- D..D - 1] ! a = int a - D"
  by (simp add: nth_upto)

lemma nth_fieldPoints:
  assumes "a < nat (2 * D)" "b < nat (2 * D)"
  shows "fieldPoints D p ! (a * nat (2 * D) + b) = fieldPoint D p (int a - D) (int b - D)"
proof -
  let ?rows = "map (\<lambda>i. map (\<lambda>j. fieldPoint D p i j) [- D..D - 1]) [- D..D - 1]"
  have "\<forall>xs \<in> set ?rows. length xs = nat (2 * D)"
    by (simp add: image_iff)
  moreover have "a < length ?rows"
    using assms(1) by simp
  ultimately have "concat ?rows ! (a * nat (2 * D) + b) = ?rows ! a ! b"
    using assms(2) by (rule nth_concat_rows)
  also have "\<dots> = fieldPoint D p (int a - D) (int b - D)"
    using assms by (simp add: nth_upto_row)
  finally show ?thesis
    unfolding fieldPoints_def .
qed

lemma drawVector_append: "drawVector ctx vals v = ctx @ drawVector [] vals v"
  by (simp add: drawVector_def drawCircle_def Let_def)

lemma foldl_drawVector:
  "foldl (\<lambda>c v. drawVector c vals v) ctx vs = ctx @ concat (map (drawVector [] vals) vs)"
proof (induction vs arbitrary: ctx)
  case Nil
  then show ?case by simp
next
  case (Cons v vs)
  have "foldl (\<lambda>c v. drawVector c vals v) ctx (v # vs) =
          drawVector ctx vals v @ concat (map (drawVector [] vals) vs)"
    by (simp add: Cons.IH)
  also have "drawVector ctx vals v = ctx @ drawVector [] vals v"
    by (rule drawVector_append)
  finally show ?case by simp
qed

lemma render_fieldPoints:
  "render ctx vals p =
     foldl (\<lambda>c v. drawVector c vals v)
       (ctx @ [SetCanvasHeight (height vals), SetCanvasWidth (width vals),
               SetFillStyle (color1 vals), FillRect 0 0 (width vals) (height vals)])
       (fieldPoints (dimension vals) p)"
  by (simp add: render_def outerLoop_fieldPoints)

section \<open>The field generator inside the renderer\<close>

text \<open>
  Claim C3. For a grid half-extent \<open>D \<ge> 1\<close> and a playhead \<open>p\<close>, one frame hands to
  \<open>drawVector\<close>, after the background, exactly the points of the field generator in their
  order; these are \<open>(2D)\<^sup>2\<close> points; the point at position \<open>a * 2D + b\<close> is the one of
  \<open>i = a - D\<close> (outer loop) and \<open>j = b - D\<close> (inner loop), so both counters ascend over the
  integers of \<open>[-D, D)\<close>; the point of \<open>(i, j)\<close> is
  \<open>{ x: i/D, y: (j/D) * ((t + r) / 2), z: r }\<close> with \<open>r = sqrt ((i/D)\<^sup>2 + (j/D)\<^sup>2) / sqrt 2\<close> and
  \<open>t = sin (2 * pi * (r + p))\<close>; and for \<open>D = 1\<close> the points are those of \<open>i, j\<close> in \<open>{-1, 0}\<close>.
\<close>

theorem field_generator:
  assumes "1 \<le> dimension vals"
  shows "render ctx vals p =
           foldl (\<lambda>c v. drawVector c vals v)
             (ctx @ [SetCanvasHeight (height vals), SetCanvasWidth (width vals),
                     SetFillStyle (color1 vals), FillRect 0 0 (width vals) (height vals)])
             (fieldPoints (dimension vals) p)
       \<and> int (length (fieldPoints (dimension vals) p)) = (2 * dimension vals) ^ 2
       \<and> (\<forall>a b. a < nat (2 * dimension vals) \<and> b < nat (2 * dimension vals) \<longrightarrow>
             fieldPoints (dimension vals) p ! (a * nat (2 * dimension vals) + b) =
               cellVector vals p (int a - dimension vals) (int b - dimension vals))
       \<and> (\<forall>i j. cellVector vals p i j =
             \<lparr> vec_x = real_of_int i / real_of_int (dimension vals),
               vec_y = (real_of_int j / real_of_int (dimension vals)) *
                 ((sin (2 * pi *
                     (sqrt ((real_of_int i / real_of_int (dimension vals)) ^ 2 +
                            (real_of_int j / real_of_int (dimension vals)) ^ 2) / sqrt 2 + p)) +
                   sqrt ((real_of_int i / real_of_int (dimension vals)) ^ 2 +
                         (real_of_int j / real_of_int (dimension vals)) ^ 2) / sqrt 2) / 2),
               vec_z = sqrt ((real_of_int i / real_of_int (dimension vals)) ^ 2 +
                             (real_of_int j / real_of_int (dimension vals)) ^ 2) / sqrt 2 \<rparr>)
       \<and> (dimension vals = 1 \<longrightarrow>
             fieldPoints (dimension vals) p =
               [cellVector vals p (- 1) (- 1), cellVector vals p (- 1) 0,
                cellVector vals p 0 (- 1), cellVector vals p 0 0])"
proof (intro conjI allI impI)
  show "render ctx vals p =
           foldl (\<lambda>c v. drawVector c vals v)
             (ctx @ [SetCanvasHeight (height vals), SetCanvasWidth (width vals),
                     SetFillStyle (color1 vals), FillRect 0 0 (width vals) (height vals)])
             (fieldPoints (dimension vals) p)"
    by (rule render_fieldPoints)
  show "int (length (fieldPoints (dimension vals) p)) = (2 * dimension vals) ^ 2"
    using assms by (intro length_fieldPoints) simp
next
  fix a b
  assume "a < nat (2 * dimension vals) \<and> b < nat (2 * dimension vals)"
  then show "fieldPoints (dimension vals) p ! (a * nat (2 * dimension vals) + b) =
               cellVector vals p (int a - dimension vals) (int b - dimension vals)"
    by (simp add: nth_fieldPoints cellVector_fieldPoint)
next
  fix i j
  show "cellVector vals p i j =
             \<lparr> vec_x = real_of_int i / real_of_int (dimension vals),
               vec_y = (real_of_int j / real_of_int (dimension vals)) *
                 ((sin (2 * pi *
                     (sqrt ((real_of_int i / real_of_int (dimension vals)) ^ 2 +
                            (real_of_int j / real_of_int (dimension vals)) ^ 2) / sqrt 2 + p)) +
                   sqrt ((real_of_int i / real_of_int (dimension vals)) ^ 2 +
                         (real_of_int j / real_of_int (dimension vals)) ^ 2) / sqrt 2) / 2),
               vec_z = sqrt ((real_of_int i / real_of_int (dimension vals)) ^ 2 +
                             (real_of_int j / real_of_int (dimension vals)) ^ 2) / sqrt 2 \<rparr>"
    by (simp add: cellVector_fieldPoint fieldPoint_def Let_def)
next
  assume "dimension vals = 1"
  then show "fieldPoints (dimension vals) p =
               [cellVector vals p (- 1) (- 1), cellVector vals p (- 1) 0,
                cellVector vals p 0 (- 1), cellVector vals p 0 0]"
    by (simp add: fieldPoints_one cellVector_fieldPoint)
qed

theorem field_generator_witness:
  "1 \<le> dimension (paneParams\<lparr>dimension := 1\<rparr>)
   \<and> length (fieldPoints 1 0) = 4
   \<and> fieldPoints 1 0 ! 2 = cellVector (paneParams\<lparr>dimension := 1\<rparr>) 0 0 (- 1)
   \<and> fieldPoints 1 0 =
       [cellVector (paneParams\<lparr>dimension := 1\<rparr>) 0 (- 1) (- 1),
        cellVector (paneParams\<lparr>dimension := 1\<rparr>) 0 (- 1) 0,
        cellVector (paneParams\<lparr>dimension := 1\<rparr>) 0 0 (- 1),
        cellVector (paneParams\<lparr>dimension := 1\<rparr>) 0 0 0]"
proof -
  let ?v = "paneParams\<lparr>dimension := 1\<rparr>"
  have d: "dimension ?v = 1" by simp
  have h: "1 \<le> dimension ?v" by simp
  note fg = field_generator [OF h, of "[]" 0, unfolded d]
  from fg have len: "int (length (fieldPoints 1 0)) = (2 * 1) ^ 2" by blast
  from fg have nth: "\<forall>a b. a < nat (2 * 1) \<and> b < nat (2 * 1) \<longrightarrow>
      fieldPoints 1 0 ! (a * nat (2 * 1) + b) = cellVector ?v 0 (int a - 1) (int b - 1)" by blast
  from fg have all: "fieldPoints 1 0 =
       [cellVector ?v 0 (- 1) (- 1), cellVector ?v 0 (- 1) 0,
        cellVector ?v 0 0 (- 1), cellVector ?v 0 0 0]" by blast
  from len have "length (fieldPoints 1 0) = 4" by simp
  moreover from nth [rule_format, of 1 0] have "fieldPoints 1 0 ! 2 = cellVector ?v 0 0 (- 1)"
    by simp
  ultimately show ?thesis using h all by blast
qed

section \<open>Projection\<close>

text \<open>
  Claim C4. \<open>projectVector\<close> is a function of the point and the parameters alone: screen
  \<open>x = (W / 2) * (1 + x)\<close>, screen \<open>y = (1 - y) * (H / 2)\<close>, and width and height are both the
  diameter \<open>z * depthScalar * baseSize\<close>. So \<open>x = 0, y = 0\<close> lands on \<open>(W / 2, H / 2)\<close>,
  \<open>x = 1\<close> and \<open>x = -1\<close> on screen \<open>x = W\<close> and \<open>0\<close>, \<open>y = 1\<close> and \<open>y = -1\<close> on screen \<open>y = 0\<close>
  and \<open>H\<close>.
\<close>

theorem projectVector_formula:
  "projectVector \<lparr> vec_x = x, vec_y = y, vec_z = z \<rparr> params =
     \<lparr> proj_x = (width params / 2) * (1 + x),
       proj_y = (1 - y) * (height params / 2),
       proj_h = z * depthScalar params * baseSize params,
       proj_w = z * depthScalar params * baseSize params \<rparr>
   \<and> proj_x (projectVector \<lparr> vec_x = 0, vec_y = 0, vec_z = z \<rparr> params) = width params / 2
   \<and> proj_y (projectVector \<lparr> vec_x = 0, vec_y = 0, vec_z = z \<rparr> params) = height params / 2
   \<and> proj_x (projectVector \<lparr> vec_x = 1, vec_y = y, vec_z = z \<rparr> params) = width params
   \<and> proj_x (projectVector \<lparr> vec_x = - 1, vec_y = y, vec_z = z \<rparr> params) = 0
   \<and> proj_y (projectVector \<lparr> vec_x = x, vec_y = 1, vec_z = z \<rparr> params) = 0
   \<and> proj_y (projectVector \<lparr> vec_x = x, vec_y = - 1, vec_z = z \<rparr> params) = height params"
  by (simp add: projectVector_def projectX_def projectY_def Let_def)

section \<open>Facts about the depth and the operations\<close>

lemma radius_nonneg: "0 \<le> sqrt (x ^ 2 + y ^ 2) / sqrt 2"
  by simp

lemma radius_le_one:
  fixes x y :: real
  assumes "\<bar>x\<bar> \<le> 1" "\<bar>y\<bar> \<le> 1"
  shows "sqrt (x ^ 2 + y ^ 2) / sqrt 2 \<le> 1"
proof -
  have "x ^ 2 \<le> 1" "y ^ 2 \<le> 1"
    using assms by (simp_all add: abs_square_le_1)
  then have "x ^ 2 + y ^ 2 \<le> 2" by simp
  then have "sqrt (x ^ 2 + y ^ 2) \<le> sqrt 2" by simp
  then show ?thesis by simp
qed

lemma radius_eq_zero_iff:
  fixes x y :: real
  shows "sqrt (x ^ 2 + y ^ 2) / sqrt 2 = 0 \<longleftrightarrow> x = 0 \<and> y = 0"
  by (simp add: sum_power2_eq_zero_iff)

lemma radius_eq_one_iff:
  fixes x y :: real
  assumes "\<bar>x\<bar> \<le> 1" "\<bar>y\<bar> \<le> 1"
  shows "sqrt (x ^ 2 + y ^ 2) / sqrt 2 = 1 \<longleftrightarrow> \<bar>x\<bar> = 1 \<and> \<bar>y\<bar> = 1"
proof -
  have le: "x ^ 2 \<le> 1" "y ^ 2 \<le> 1"
    using assms by (simp_all add: abs_square_le_1)
  have "sqrt (x ^ 2 + y ^ 2) / sqrt 2 = 1 \<longleftrightarrow> sqrt (x ^ 2 + y ^ 2) = sqrt 2"
    by (simp add: field_simps)
  also have "\<dots> \<longleftrightarrow> x ^ 2 + y ^ 2 = 2"
    by simp
  also have "\<dots> \<longleftrightarrow> x ^ 2 = 1 \<and> y ^ 2 = 1"
    using le by auto
  also have "\<dots> \<longleftrightarrow> \<bar>x\<bar> = 1 \<and> \<bar>y\<bar> = 1"
    by (simp add: abs_square_eq_1)
  finally show ?thesis .
qed

lemma cell_abs_le_one:
  assumes "1 \<le> D" "- D \<le> i" "i < D"
  shows "\<bar>real_of_int i / real_of_int D\<bar> \<le> 1"
proof -
  have "\<bar>real_of_int i\<bar> \<le> real_of_int D"
    using assms by linarith
  moreover have "0 < real_of_int D" using assms by simp
  ultimately show ?thesis by (simp add: abs_divide divide_le_eq)
qed

lemma cell_abs_eq_one_iff:
  assumes "1 \<le> D" "- D \<le> i" "i < D"
  shows "\<bar>real_of_int i / real_of_int D\<bar> = 1 \<longleftrightarrow> i = - D"
proof -
  have pos: "0 < real_of_int D" using assms by simp
  have "\<bar>real_of_int i / real_of_int D\<bar> = 1 \<longleftrightarrow> \<bar>real_of_int i\<bar> = real_of_int D"
    using pos by (simp add: abs_divide divide_eq_eq)
  also have "\<dots> \<longleftrightarrow> \<bar>i\<bar> = D"
    by (metis of_int_abs of_int_eq_iff)
  also have "\<dots> \<longleftrightarrow> i = - D"
    using assms by linarith
  finally show ?thesis .
qed

lemma cell_eq_zero_iff:
  assumes "1 \<le> D"
  shows "real_of_int i / real_of_int D = 0 \<longleftrightarrow> i = 0"
  using assms by simp

lemma set_fieldPoints:
  "set (fieldPoints D p) = {fieldPoint D p i j | i j. - D \<le> i \<and> i < D \<and> - D \<le> j \<and> j < D}"
  by (fastforce simp: fieldPoints_def)


lemma drawVector_ops:
  "drawVector ctx vals v =
     ctx @ [BeginPath,
            Arc ((width vals / 2) * (1 + vec_x v)) ((1 - vec_y v) * (height vals / 2))
                (vec_z v * depthScalar vals * baseSize vals / 2) 0 (2 * pi) False,
            SetFillStyle (if vec_z v < 0.33 then color1 vals
                          else if vec_z v < 0.66 then color2 vals
                          else color3 vals),
            Fill]"
  by (simp add: drawVector_def drawCircle_def projectVector_def projectX_def projectY_def Let_def)

lemma render_ops:
  "render ctx vals p =
     ctx @ [SetCanvasHeight (height vals), SetCanvasWidth (width vals),
            SetFillStyle (color1 vals), FillRect 0 0 (width vals) (height vals)]
         @ concat (map (\<lambda>v.
             [BeginPath,
              Arc ((width vals / 2) * (1 + vec_x v)) ((1 - vec_y v) * (height vals / 2))
                  (vec_z v * depthScalar vals * baseSize vals / 2) 0 (2 * pi) False,
              SetFillStyle (if vec_z v < 0.33 then color1 vals
                            else if vec_z v < 0.66 then color2 vals
                            else color3 vals),
              Fill]) (fieldPoints (dimension vals) p))"
proof -
  have "drawVector [] vals = (\<lambda>v.
             [BeginPath,
              Arc ((width vals / 2) * (1 + vec_x v)) ((1 - vec_y v) * (height vals / 2))
                  (vec_z v * depthScalar vals * baseSize vals / 2) 0 (2 * pi) False,
              SetFillStyle (if vec_z v < 0.33 then color1 vals
                            else if vec_z v < 0.66 then color2 vals
                            else color3 vals),
              Fill])"
    by (rule ext) (simp add: drawVector_ops)
  then show ?thesis
    by (simp add: render_fieldPoints foldl_drawVector)
qed

lemma sqrt2_bounds: "sqrt 2 < 3 / 2" "1 < sqrt 2"
proof -
  have "sqrt 2 < sqrt ((3 / 2) ^ 2)"
    by (subst real_sqrt_less_iff) (simp add: power2_eq_square)
  then show "sqrt 2 < 3 / 2" by simp
  show "1 < sqrt 2" by simp
qed

lemma inv_sqrt2_bucket: "\<not> 1 / sqrt 2 < 33 / 100" "\<not> 1 / sqrt 2 < 66 / 100"
  using sqrt2_bounds by (simp_all add: field_simps)

lemma example_points:
  "fieldPoints 1 0 =
     [\<lparr> vec_x = - 1, vec_y = - (1 / 2), vec_z = 1 \<rparr>,
      \<lparr> vec_x = - 1, vec_y = 0, vec_z = 1 / sqrt 2 \<rparr>,
      \<lparr> vec_x = 0, vec_y = - ((sin (2 * pi * (1 / sqrt 2)) + 1 / sqrt 2) / 2), vec_z = 1 / sqrt 2 \<rparr>,
      \<lparr> vec_x = 0, vec_y = 0, vec_z = 0 \<rparr>]"
  by (simp add: fieldPoints_one fieldPoint_def Let_def add_divide_distrib)

lemma example_render:
  "render [] example_params 0 =
     [SetCanvasHeight 640, SetCanvasWidth 640, SetFillStyle ''#000'', FillRect 0 0 640 640,
      BeginPath, Arc 0 480 (5 / 2) 0 (2 * pi) False, SetFillStyle ''#222'', Fill,
      BeginPath, Arc 0 320 (5 / (2 * sqrt 2)) 0 (2 * pi) False, SetFillStyle ''#222'', Fill,
      BeginPath,
        Arc 320 (320 * (1 + (sin (2 * pi * (1 / sqrt 2)) + 1 / sqrt 2) / 2))
            (5 / (2 * sqrt 2)) 0 (2 * pi) False,
        SetFillStyle ''#222'', Fill,
      BeginPath, Arc 320 320 0 0 (2 * pi) False, SetFillStyle ''#000'', Fill]"
  using inv_sqrt2_bucket
  by (simp add: render_ops example_params_def example_points)

section \<open>The colour of a circle\<close>

text \<open>
  Claim C5. \<open>drawVector\<close> chooses the fill colour of the circle from the \<open>z\<close> of the point
  alone, three ways: \<open>color1\<close> if \<open>z < 0.33\<close>, \<open>color2\<close> if \<open>0.33 \<le> z < 0.66\<close>, \<open>color3\<close> if
  \<open>z \<ge> 0.66\<close>; \<open>color4\<close> is never read, in either sketch (the function is the same for every
  extension of the parameter record, and writing \<open>color4\<close> changes nothing it does).
\<close>

theorem drawVector_color:
  "drawVector ctx params v =
     drawCircle ctx (proj_x (projectVector v params)) (proj_y (projectVector v params))
       (proj_w (projectVector v params) / 2)
       (if vec_z v < 0.33 then color1 params
        else if 0.33 \<le> vec_z v \<and> vec_z v < 0.66 then color2 params
        else color3 params)
   \<and> (vec_z v < 0.33 \<longrightarrow>
        drawVector ctx params v =
          drawCircle ctx (proj_x (projectVector v params)) (proj_y (projectVector v params))
            (proj_w (projectVector v params) / 2) (color1 params))
   \<and> (0.33 \<le> vec_z v \<and> vec_z v < 0.66 \<longrightarrow>
        drawVector ctx params v =
          drawCircle ctx (proj_x (projectVector v params)) (proj_y (projectVector v params))
            (proj_w (projectVector v params) / 2) (color2 params))
   \<and> (0.66 \<le> vec_z v \<longrightarrow>
        drawVector ctx params v =
          drawCircle ctx (proj_x (projectVector v params)) (proj_y (projectVector v params))
            (proj_w (projectVector v params) / 2) (color3 params))
   \<and> drawVector ctx (params\<lparr>color4 := c\<rparr>) v = drawVector ctx params v"
  by (simp add: drawVector_def projectVector_def Let_def)

theorem drawVector_color_witness:
  "drawVector [] paneParams \<lparr> vec_x = 0, vec_y = 0, vec_z = 0.329 \<rparr> =
     [BeginPath, Arc 320 320 (0.329 * 5 / 2) 0 (2 * pi) False, SetFillStyle ''#222831'', Fill]
   \<and> drawVector [] paneParams \<lparr> vec_x = 0, vec_y = 0, vec_z = 0.331 \<rparr> =
     [BeginPath, Arc 320 320 (0.331 * 5 / 2) 0 (2 * pi) False, SetFillStyle ''#393e46'', Fill]
   \<and> drawVector [] paneParamsD \<lparr> vec_x = 0, vec_y = 0, vec_z = 0.659 \<rparr> =
     [BeginPath, Arc 320 320 (0.659 * 5 / 2) 0 (2 * pi) False, SetFillStyle ''#393e46'', Fill]
   \<and> drawVector [] paneParamsD \<lparr> vec_x = 0, vec_y = 0, vec_z = 0.661 \<rparr> =
     [BeginPath, Arc 320 320 (0.661 * 5 / 2) 0 (2 * pi) False, SetFillStyle ''#00ADB5'', Fill]"
proof -
  have a: "drawVector [] paneParams \<lparr> vec_x = 0, vec_y = 0, vec_z = 0.329 \<rparr> =
     [BeginPath, Arc 320 320 (0.329 * 5 / 2) 0 (2 * pi) False, SetFillStyle ''#222831'', Fill]"
    using drawVector_color [of "[]" paneParams "\<lparr> vec_x = 0, vec_y = 0, vec_z = 0.329 \<rparr>"]
    by (simp add: drawCircle_def projectVector_def projectX_def projectY_def paneParams_def)
  have b: "drawVector [] paneParams \<lparr> vec_x = 0, vec_y = 0, vec_z = 0.331 \<rparr> =
     [BeginPath, Arc 320 320 (0.331 * 5 / 2) 0 (2 * pi) False, SetFillStyle ''#393e46'', Fill]"
    using drawVector_color [of "[]" paneParams "\<lparr> vec_x = 0, vec_y = 0, vec_z = 0.331 \<rparr>"]
    by (simp add: drawCircle_def projectVector_def projectX_def projectY_def paneParams_def)
  have c: "drawVector [] paneParamsD \<lparr> vec_x = 0, vec_y = 0, vec_z = 0.659 \<rparr> =
     [BeginPath, Arc 320 320 (0.659 * 5 / 2) 0 (2 * pi) False, SetFillStyle ''#393e46'', Fill]"
    using drawVector_color [of "[]" paneParamsD "\<lparr> vec_x = 0, vec_y = 0, vec_z = 0.659 \<rparr>"]
    by (simp add: drawCircle_def projectVector_def projectX_def projectY_def paneParamsD_def)
  have d: "drawVector [] paneParamsD \<lparr> vec_x = 0, vec_y = 0, vec_z = 0.661 \<rparr> =
     [BeginPath, Arc 320 320 (0.661 * 5 / 2) 0 (2 * pi) False, SetFillStyle ''#00ADB5'', Fill]"
    using drawVector_color [of "[]" paneParamsD "\<lparr> vec_x = 0, vec_y = 0, vec_z = 0.661 \<rparr>"]
    by (simp add: drawCircle_def projectVector_def projectX_def projectY_def paneParamsD_def)
  from a b c d show ?thesis by blast
qed

lemma count_circle_ops:
  assumes "\<And>v. \<not> is_FillRect (A v) \<and> \<not> is_Fill (A v) \<and> \<not> is_FillRect (S v) \<and> \<not> is_Fill (S v)"
  shows "length (filter is_FillRect (concat (map (\<lambda>v. [BeginPath, A v, S v, Fill]) vs))) = 0
       \<and> length (filter is_Fill (concat (map (\<lambda>v. [BeginPath, A v, S v, Fill]) vs))) = length vs"
  using assms by (induction vs) simp_all

lemma render_count_FillRect: "length (filter is_FillRect (render [] vals p)) = 1"
  by (simp add: render_ops count_circle_ops)

lemma render_count_Fill:
  "length (filter is_Fill (render [] vals p)) = length (fieldPoints (dimension vals) p)"
  by (simp add: render_ops count_circle_ops)

section \<open>The operations of one frame\<close>

text \<open>
  Claim C6. For each pair of parameters and playhead the renderer performs, in this order:
  the resize of the canvas to \<open>(width, height)\<close>; one rectangle fill of the whole surface
  with \<open>color1\<close>; then, for each point of the field generator, one filled circle at the
  projected position, with the bucketed colour and the radius \<open>diameter / 2\<close>. With width 640,
  height 640, dimension 1 and playhead 0 these are one \<open>640 \<times> 640\<close> background fill
  followed by four circles.
\<close>

theorem renderer_sequence:
  "render ctx vals p =
     ctx @ [SetCanvasHeight (height vals), SetCanvasWidth (width vals),
            SetFillStyle (color1 vals), FillRect 0 0 (width vals) (height vals)]
         @ concat (map (\<lambda>v.
             [BeginPath,
              Arc (proj_x (projectVector v vals)) (proj_y (projectVector v vals))
                  (proj_w (projectVector v vals) / 2) 0 (2 * pi) False,
              SetFillStyle (if vec_z v < 0.33 then color1 vals
                            else if vec_z v < 0.66 then color2 vals
                            else color3 vals),
              Fill]) (fieldPoints (dimension vals) p))
   \<and> length (filter is_FillRect (render [] vals p)) = 1
   \<and> length (filter is_Fill (render [] vals p)) = length (fieldPoints (dimension vals) p)
   \<and> render [] example_params 0 =
     [SetCanvasHeight 640, SetCanvasWidth 640, SetFillStyle ''#000'', FillRect 0 0 640 640,
      BeginPath, Arc 0 480 (5 / 2) 0 (2 * pi) False, SetFillStyle ''#222'', Fill,
      BeginPath, Arc 0 320 (5 / (2 * sqrt 2)) 0 (2 * pi) False, SetFillStyle ''#222'', Fill,
      BeginPath,
        Arc 320 (320 * (1 + (sin (2 * pi * (1 / sqrt 2)) + 1 / sqrt 2) / 2))
            (5 / (2 * sqrt 2)) 0 (2 * pi) False,
        SetFillStyle ''#222'', Fill,
      BeginPath, Arc 320 320 0 0 (2 * pi) False, SetFillStyle ''#000'', Fill]
   \<and> length (filter is_FillRect (render [] example_params 0)) = 1
   \<and> length (filter is_Fill (render [] example_params 0)) = 4"
proof -
  have ops: "render ctx vals p =
     ctx @ [SetCanvasHeight (height vals), SetCanvasWidth (width vals),
            SetFillStyle (color1 vals), FillRect 0 0 (width vals) (height vals)]
         @ concat (map (\<lambda>v.
             [BeginPath,
              Arc (proj_x (projectVector v vals)) (proj_y (projectVector v vals))
                  (proj_w (projectVector v vals) / 2) 0 (2 * pi) False,
              SetFillStyle (if vec_z v < 0.33 then color1 vals
                            else if vec_z v < 0.66 then color2 vals
                            else color3 vals),
              Fill]) (fieldPoints (dimension vals) p))"
    by (simp add: render_ops projectVector_def projectX_def projectY_def Let_def)
  have "length (fieldPoints (dimension example_params) 0) = 4"
    by (simp add: example_params_def example_points)
  then have four: "length (filter is_Fill (render [] example_params 0)) = 4"
    by (simp only: render_count_Fill)
  show ?thesis
    by (intro conjI ops render_count_FillRect render_count_Fill example_render four)
qed

section \<open>The gap modifier\<close>

text \<open>
  Claim C8. For two parameter snapshots that agree on every field but \<open>gapModifier\<close>, and any
  point and playhead, \<open>projectVector\<close> returns the same result and one invocation of the
  renderer performs the same sequence of operations.
\<close>

theorem gapModifier_inert:
  assumes "height a = height b" "width a = width b" "dimension a = dimension b"
    "depthScalar a = depthScalar b" "baseSize a = baseSize b"
    "color1 a = color1 b" "color2 a = color2 b" "color3 a = color3 b" "color4 a = color4 b"
  shows "projectVector v a = projectVector v b \<and> render ctx a p = render ctx b p"
  using assms by (simp add: render_ops projectVector_def cong: if_cong)

theorem gapModifier_inert_witness:
  "gapModifier (paneParams\<lparr>gapModifier := 1\<rparr>) \<noteq> gapModifier paneParams
   \<and> projectVector \<lparr> vec_x = 1 / 2, vec_y = 1 / 4, vec_z = 1 / 3 \<rparr> (paneParams\<lparr>gapModifier := 1\<rparr>) =
       projectVector \<lparr> vec_x = 1 / 2, vec_y = 1 / 4, vec_z = 1 / 3 \<rparr> paneParams
   \<and> render [] (paneParams\<lparr>gapModifier := 1\<rparr>) (3 / 10) = render [] paneParams (3 / 10)"
proof -
  have "gapModifier (paneParams\<lparr>gapModifier := 1\<rparr>) \<noteq> gapModifier paneParams"
    by (simp add: paneParams_def)
  moreover note gapModifier_inert [of "paneParams\<lparr>gapModifier := 1\<rparr>" paneParams
      "\<lparr> vec_x = 1 / 2, vec_y = 1 / 4, vec_z = 1 / 3 \<rparr>" "[]" "3 / 10"]
  ultimately show ?thesis by simp
qed

lemma vec_z_fieldPoint:
  "vec_z (fieldPoint D p i j) =
     sqrt ((real_of_int i / real_of_int D) ^ 2 + (real_of_int j / real_of_int D) ^ 2) / sqrt 2"
  by (simp add: fieldPoint_def Let_def)

lemma vec_z_fieldPoint_bounds:
  assumes "1 \<le> D" "- D \<le> i" "i < D" "- D \<le> j" "j < D"
  shows "0 \<le> vec_z (fieldPoint D p i j)" "vec_z (fieldPoint D p i j) \<le> 1"
    "vec_z (fieldPoint D p i j) = 0 \<longleftrightarrow> i = 0 \<and> j = 0"
    "vec_z (fieldPoint D p i j) = 1 \<longleftrightarrow> i = - D \<and> j = - D"
proof -
  let ?x = "real_of_int i / real_of_int D" and ?y = "real_of_int j / real_of_int D"
  have x: "\<bar>?x\<bar> \<le> 1" using assms by (intro cell_abs_le_one) auto
  have y: "\<bar>?y\<bar> \<le> 1" using assms by (intro cell_abs_le_one) auto
  show "0 \<le> vec_z (fieldPoint D p i j)"
    unfolding vec_z_fieldPoint by (rule radius_nonneg)
  show "vec_z (fieldPoint D p i j) \<le> 1"
    unfolding vec_z_fieldPoint using x y by (rule radius_le_one)
  show "vec_z (fieldPoint D p i j) = 0 \<longleftrightarrow> i = 0 \<and> j = 0"
    unfolding vec_z_fieldPoint radius_eq_zero_iff using assms(1) by (simp add: cell_eq_zero_iff)
  have "vec_z (fieldPoint D p i j) = 1 \<longleftrightarrow> \<bar>?x\<bar> = 1 \<and> \<bar>?y\<bar> = 1"
    unfolding vec_z_fieldPoint using x y by (rule radius_eq_one_iff)
  also have "\<bar>?x\<bar> = 1 \<longleftrightarrow> i = - D"
    using assms by (intro cell_abs_eq_one_iff) auto
  also have "\<bar>?y\<bar> = 1 \<longleftrightarrow> j = - D"
    using assms by (intro cell_abs_eq_one_iff) auto
  finally show "vec_z (fieldPoint D p i j) = 1 \<longleftrightarrow> i = - D \<and> j = - D" .
qed

lemma diameter_bounds:
  fixes z :: real
  assumes "0 \<le> z" "z \<le> 1" "0 < ds" "0 < bs"
  shows "0 \<le> z * ds * bs" "z * ds * bs \<le> ds * bs"
proof -
  have pos: "0 < ds * bs" using assms by simp
  show "0 \<le> z * ds * bs" using assms by simp
  have "z * (ds * bs) \<le> 1 * (ds * bs)"
    using assms(2) pos by (intro mult_right_mono) auto
  then show "z * ds * bs \<le> ds * bs" by (simp add: mult.assoc)
qed

section \<open>Range of the depth\<close>

text \<open>
  Claim C10. For a dimension \<open>D \<ge> 1\<close> and every point of a frame, the component
  \<open>z = sqrt ((i/D)\<^sup>2 + (j/D)\<^sup>2) / sqrt 2\<close> lies in \<open>[0, 1]\<close>; it is 0 exactly at \<open>i = j = 0\<close> and 1
  exactly at \<open>i = j = -D\<close>. So every point falls in one of the three colour buckets, and for
  positive \<open>depthScalar\<close> and \<open>baseSize\<close> the diameter \<open>z * depthScalar * baseSize\<close> of every
  circle is at least 0 and at most \<open>depthScalar * baseSize\<close>.
\<close>

theorem depth_bounds:
  assumes "1 \<le> dimension vals"
    and "- dimension vals \<le> i" "i < dimension vals"
    and "- dimension vals \<le> j" "j < dimension vals"
  shows "cellVector vals p i j \<in> set (fieldPoints (dimension vals) p)
     \<and> 0 \<le> vec_z (cellVector vals p i j) \<and> vec_z (cellVector vals p i j) \<le> 1
     \<and> (vec_z (cellVector vals p i j) = 0 \<longleftrightarrow> i = 0 \<and> j = 0)
     \<and> (vec_z (cellVector vals p i j) = 1 \<longleftrightarrow> i = - dimension vals \<and> j = - dimension vals)
     \<and> (\<forall>v \<in> set (fieldPoints (dimension vals) p).
           0 \<le> vec_z v \<and> vec_z v \<le> 1
         \<and> (\<exists>c \<in> {color1 vals, color2 vals, color3 vals}.
               drawVector ctx vals v =
                 drawCircle ctx (proj_x (projectVector v vals)) (proj_y (projectVector v vals))
                   (proj_w (projectVector v vals) / 2) c)
         \<and> (0 < depthScalar vals \<and> 0 < baseSize vals \<longrightarrow>
               0 \<le> proj_w (projectVector v vals)
             \<and> proj_w (projectVector v vals) \<le> depthScalar vals * baseSize vals))"
proof (intro conjI ballI)
  show "cellVector vals p i j \<in> set (fieldPoints (dimension vals) p)"
    unfolding set_fieldPoints cellVector_fieldPoint using assms by blast
  show "0 \<le> vec_z (cellVector vals p i j)" "vec_z (cellVector vals p i j) \<le> 1"
    "vec_z (cellVector vals p i j) = 0 \<longleftrightarrow> i = 0 \<and> j = 0"
    "vec_z (cellVector vals p i j) = 1 \<longleftrightarrow> i = - dimension vals \<and> j = - dimension vals"
    unfolding cellVector_fieldPoint using assms by (rule vec_z_fieldPoint_bounds)+
next
  fix v
  assume "v \<in> set (fieldPoints (dimension vals) p)"
  then obtain k l where v: "v = fieldPoint (dimension vals) p k l"
    and kl: "- dimension vals \<le> k" "k < dimension vals" "- dimension vals \<le> l" "l < dimension vals"
    unfolding set_fieldPoints by blast
  show lo: "0 \<le> vec_z v" and hi: "vec_z v \<le> 1"
    unfolding v using assms(1) kl by (rule vec_z_fieldPoint_bounds)+
  show "\<exists>c \<in> {color1 vals, color2 vals, color3 vals}.
               drawVector ctx vals v =
                 drawCircle ctx (proj_x (projectVector v vals)) (proj_y (projectVector v vals))
                   (proj_w (projectVector v vals) / 2) c"
    by (simp add: drawVector_def Let_def)
  show "0 < depthScalar vals \<and> 0 < baseSize vals \<longrightarrow>
               0 \<le> proj_w (projectVector v vals)
             \<and> proj_w (projectVector v vals) \<le> depthScalar vals * baseSize vals"
  proof
    assume "0 < depthScalar vals \<and> 0 < baseSize vals"
    then have "0 \<le> vec_z v * depthScalar vals * baseSize vals"
      and "vec_z v * depthScalar vals * baseSize vals \<le> depthScalar vals * baseSize vals"
      using lo hi by (simp_all add: diameter_bounds)
    then show "0 \<le> proj_w (projectVector v vals)
             \<and> proj_w (projectVector v vals) \<le> depthScalar vals * baseSize vals"
      by (simp add: projectVector_def Let_def)
  qed
qed

theorem depth_bounds_witness:
  "vec_z (cellVector paneParams 0 (- 32) (- 32)) = 1
   \<and> vec_z (cellVector paneParams 0 0 0) = 0
   \<and> 0 \<le> vec_z (cellVector paneParams 0 3 (- 7))
   \<and> vec_z (cellVector paneParams 0 3 (- 7)) \<le> 1
   \<and> vec_z (cellVector paneParams 0 3 (- 7)) \<noteq> 0
   \<and> vec_z (cellVector paneParams 0 3 (- 7)) \<noteq> 1
   \<and> proj_w (projectVector (cellVector paneParams 0 3 (- 7)) paneParams) \<le> 5"
proof -
  have d: "dimension paneParams = 32" "depthScalar paneParams = 1" "baseSize paneParams = 5"
    by (simp_all add: paneParams_def)
  have a: "vec_z (cellVector paneParams 0 (- 32) (- 32)) = 1"
    using depth_bounds [of paneParams "- 32" "- 32" 0 "[]"] by (simp add: d)
  have b: "vec_z (cellVector paneParams 0 0 0) = 0"
    using depth_bounds [of paneParams 0 0 0 "[]"] by (simp add: d)
  note c = depth_bounds [of paneParams 3 "- 7" 0 "[]", unfolded d]
  have c1: "0 \<le> vec_z (cellVector paneParams 0 3 (- 7))"
    "vec_z (cellVector paneParams 0 3 (- 7)) \<le> 1"
    "vec_z (cellVector paneParams 0 3 (- 7)) \<noteq> 0"
    "vec_z (cellVector paneParams 0 3 (- 7)) \<noteq> 1"
    using c by simp_all
  have mem: "cellVector paneParams 0 3 (- 7) \<in> set (fieldPoints 32 0)"
    using c by simp
  have "\<forall>v \<in> set (fieldPoints 32 0).
      0 < (1::real) \<and> 0 < (5::real) \<longrightarrow> proj_w (projectVector v paneParams) \<le> 1 * 5"
    using c by simp
  with mem have c2: "proj_w (projectVector (cellVector paneParams 0 3 (- 7)) paneParams) \<le> 5"
    by auto
  from a b c1 c2 show ?thesis by blast
qed

section \<open>Remainder, clamp and angle\<close>

lemma jsmod_nonneg:
  assumes "0 \<le> a" "0 < b"
  shows "jsmod a b = a - b * of_int \<lfloor>a / b\<rfloor>" "0 \<le> jsmod a b" "jsmod a b < b"
proof -
  have q: "0 \<le> a / b" using assms by simp
  then show eq: "jsmod a b = a - b * of_int \<lfloor>a / b\<rfloor>"
    by (simp add: jsmod_def trunc_def)
  have ba: "b * (a / b) = a" using assms(2) by simp
  have "b * of_int \<lfloor>a / b\<rfloor> \<le> b * (a / b)"
    using assms(2) by (intro mult_left_mono) simp_all
  then show "0 \<le> jsmod a b" unfolding eq ba by simp
  have "a / b < of_int \<lfloor>a / b\<rfloor> + 1" by linarith
  then have "b * (a / b) < b * (of_int \<lfloor>a / b\<rfloor> + 1)"
    using assms(2) by (intro mult_strict_left_mono) simp_all
  then show "jsmod a b < b" unfolding eq ba by (simp add: algebra_simps)
qed

lemma jsmod_small:
  assumes "0 \<le> a" "a < b"
  shows "jsmod a b = a"
proof -
  have "0 \<le> a / b" "a / b < 1" using assms by simp_all
  then have "\<lfloor>a / b\<rfloor> = 0" by linarith
  with \<open>0 \<le> a / b\<close> show ?thesis by (simp add: jsmod_def trunc_def)
qed


lemma framePlayhead_linear:
  assumes "0 \<le> s" "0 < d" "0 \<le> e" "s + e / (d * 1000) < 1"
  shows "framePlayhead s d e = s + e / (d * 1000)"
proof -
  have m: "0 < d * 1000" using assms by simp
  have "e / (d * 1000) < 1" using assms by linarith
  then have "e < d * 1000" using m by (simp add: field_simps)
  then have "jsmod e (d * 1000) = e" using assms(3) by (intro jsmod_small)
  moreover have "0 \<le> s + e / (d * 1000)" using assms m by simp
  ultimately show ?thesis
    unfolding framePlayhead_def using assms(4) by (simp add: jsmod_small)
qed

lemma clamp_unit: "0 \<le> clamp v 0 1" "clamp v 0 1 \<le> 1"
  by (simp_all add: clamp_def)

lemma atan2_range: "- pi \<le> atan2 y x" "atan2 y x \<le> pi"
proof -
  have lb: "- (pi / 2) < arctan (y / x)" by (rule arctan_lbound)
  have ub: "arctan (y / x) < pi / 2" by (rule arctan_ubound)
  have neg: "arctan (y / x) \<le> 0" if "x < 0" "0 \<le> y"
    using that by (simp add: arctan_le_zero_iff divide_nonneg_neg)
  have pos: "0 \<le> arctan (y / x)" if "x < 0" "y < 0"
    using that by (simp add: zero_le_arctan_iff divide_nonpos_neg)
  show "- pi \<le> atan2 y x"
    using lb ub neg pos pi_gt_zero by (auto simp: atan2_def)
  show "atan2 y x \<le> pi"
    using lb ub neg pos pi_gt_zero by (auto simp: atan2_def)
qed

lemma indicatorValueOf_range:
  "0 \<le> indicatorValueOf clientX clientY left w tp h"
  "indicatorValueOf clientX clientY left w tp h < 1"
proof -
  define a where "a = atan2 (tp + h / 2 - clientY) (left + w / 2 - clientX)"
  have "- pi \<le> a" "a \<le> pi" unfolding a_def by (rule atan2_range)+
  then have "- (1 / 2) \<le> a / (2 * pi)"
    using pi_gt_zero by (simp add: field_simps)
  then have nn: "0 \<le> a / (2 * pi) + 0.75" by simp
  have eq: "indicatorValueOf clientX clientY left w tp h = jsmod (a / (2 * pi) + 0.75) 1"
    by (simp add: indicatorValueOf_def Let_def a_def)
  show "0 \<le> indicatorValueOf clientX clientY left w tp h"
    unfolding eq using nn by (intro jsmod_nonneg(2)) simp_all
  show "indicatorValueOf clientX clientY left w tp h < 1"
    unfolding eq using nn by (intro jsmod_nonneg(3)) simp_all
qed








section \<open>The state of the scrubbed playhead along a run\<close>

lemma frame_run_append:
  "frame_run st (xs @ ys) = frame_run st xs @ frame_run (frame_state_after st xs) ys"
  by (induction xs arbitrary: st) simp_all

lemma frame_state_after_snoc:
  "frame_state_after st (xs @ [ev]) = fst (frame_step (frame_state_after st xs) ev)"
  by (induction xs arbitrary: st) simp_all

lemma scrub_value_snoc:
  "scrub_value (evs @ [ev]) =
     (case slider_event_value ev of None \<Rightarrow> scrub_value evs | Some v \<Rightarrow> v)"
  by (cases ev) (simp_all add: scrub_value_def List.map_filter_simps)

lemma latest_duration_snoc:
  "latest_duration (evs @ [ev]) =
     (case timeline_event_value ev of None \<Rightarrow> latest_duration evs | Some d \<Rightarrow> d)"
  by (cases ev) (simp_all add: latest_duration_def List.map_filter_simps)

lemma frame_state_after_init:
  "frame_state_after frame_init evs =
     \<lparr> cur_slider = scrub_value evs, cur_duration = latest_duration evs \<rparr>"
proof (induction evs rule: rev_induct)
  case Nil
  show ?case
    by (simp add: frame_init_def scrub_value_def latest_duration_def List.map_filter_simps)
next
  case (snoc ev evs)
  show ?case
    unfolding frame_state_after_snoc snoc.IH
    by (cases ev) (simp_all add: scrub_value_snoc latest_duration_snoc Let_def)
qed

lemma frame_run_frames:
  "cur_duration st \<noteq> 0 \<Longrightarrow>
     frame_run st (map AnimationFrame es) =
       map (\<lambda>e. framePlayhead (cur_slider st) (cur_duration st) e) es"
  by (induction es) simp_all

lemma frame_stream_switch:
  assumes "d \<noteq> 0"
  shows "frame_stream (evs @ TimelineChange d # map AnimationFrame es) =
     frame_stream evs @ map (\<lambda>e. framePlayhead (scrub_value evs) d e) es"
proof -
  have "frame_run frame_init (evs @ TimelineChange d # map AnimationFrame es) =
      frame_run frame_init evs @
      frame_run \<lparr> cur_slider = scrub_value evs, cur_duration = latest_duration evs \<rparr>
        (TimelineChange d # map AnimationFrame es)"
    by (simp only: frame_run_append frame_state_after_init)
  also have "frame_run \<lparr> cur_slider = scrub_value evs, cur_duration = latest_duration evs \<rparr>
        (TimelineChange d # map AnimationFrame es) =
      map (\<lambda>e. framePlayhead (scrub_value evs) d e) es"
    using assms by (simp add: frame_emit_def frame_run_frames)
  finally show ?thesis by (simp add: frame_stream_def)
qed

lemma frame_stream_snoc:
  "frame_stream (evs @ [ev]) =
     frame_stream evs @
     snd (frame_step \<lparr> cur_slider = scrub_value evs, cur_duration = latest_duration evs \<rparr> ev)"
  by (simp add: frame_stream_def frame_run_append frame_state_after_init)

lemma frame_stream_nonempty: "frame_stream evs \<noteq> []"
  by (simp add: frame_stream_def frame_init_def frame_emit_def)

lemma last_frame_stream_static:
  "latest_duration evs = 0 \<Longrightarrow> last (frame_stream evs) = scrub_value evs"
proof (induction evs rule: rev_induct)
  case Nil
  show ?case
    by (simp add: frame_stream_def frame_init_def frame_emit_def scrub_value_def
        List.map_filter_simps)
next
  case (snoc ev evs)
  show ?case
  proof (cases ev)
    case (SliderMouse clientX left w)
    with snoc.prems show ?thesis
      by (simp add: frame_stream_snoc latest_duration_snoc scrub_value_snoc frame_emit_def Let_def)
  next
    case (CircleMouse clientX clientY left w tp h)
    with snoc.prems show ?thesis
      by (simp add: frame_stream_snoc latest_duration_snoc scrub_value_snoc frame_emit_def Let_def)
  next
    case (TimelineChange d)
    with snoc.prems show ?thesis
      by (simp add: frame_stream_snoc latest_duration_snoc scrub_value_snoc frame_emit_def)
  next
    case (AnimationFrame elapsed)
    with snoc.prems have "latest_duration evs = 0"
      by (simp add: latest_duration_snoc)
    with AnimationFrame snoc.IH show ?thesis
      by (simp add: frame_stream_snoc scrub_value_snoc frame_stream_nonempty)
  qed
qed

lemma scrub_value_range: "0 \<le> scrub_value evs" "scrub_value evs \<le> 1"
proof -
  have "0 \<le> scrub_value evs \<and> scrub_value evs \<le> 1"
  proof (induction evs rule: rev_induct)
    case Nil
    show ?case by (simp add: scrub_value_def List.map_filter_simps)
  next
    case (snoc ev evs)
    then show ?case
      using indicatorValueOf_range
      by (cases ev) (simp_all add: scrub_value_snoc sliderValueOf_def clamp_unit less_imp_le)
  qed
  then show "0 \<le> scrub_value evs" "scrub_value evs \<le> 1" by simp_all
qed

lemma framePlayhead_wrap:
  assumes "0 < d" "0 \<le> e" "e < d * 1000"
  shows "framePlayhead 1 d e = e / (d * 1000)"
proof -
  have m: "0 < d * 1000" using assms by simp
  have je: "jsmod e (d * 1000) = e" using assms by (intro jsmod_small)
  have q: "0 \<le> e / (d * 1000)" "e / (d * 1000) < 1" using assms m by simp_all
  then have "\<lfloor>1 + e / (d * 1000)\<rfloor> = 1" by linarith
  moreover have "0 \<le> 1 + e / (d * 1000)" using q by simp
  ultimately show ?thesis
    unfolding framePlayhead_def je by (simp add: jsmod_nonneg(1))
qed

section \<open>Resuming the animation from the scrub value\<close>

text \<open>
  Claim C1 as stated, with a first emission near \<open>s\<close> for every scrub value, does not hold.
  A press on the linear slider at its right edge makes the scrub value 1, which is emitted
  while the duration is 0; after the duration changes to 5 the frame with elapsed time 0
  emits 0, and the frame with elapsed time 16 a value below 0.01: the playhead starts
  again from 0, not near 1.
\<close>

theorem scrub_resume_counterexample:
  "list_all frame_event_ok [SliderMouse 100 0 100, TimelineChange 5, AnimationFrame 0]
   \<and> scrub_value [SliderMouse 100 0 100] = 1
   \<and> frame_stream [SliderMouse 100 0 100] = [0, 1]
   \<and> frame_stream [SliderMouse 100 0 100, TimelineChange 5, AnimationFrame 0] = [0, 1, 0]
   \<and> last (frame_stream [SliderMouse 100 0 100, TimelineChange 5, AnimationFrame 16]) < 1 / 100"
  by (simp add: frame_stream_def frame_init_def frame_emit_def sliderValueOf_def clamp_def
      scrub_value_def List.map_filter_simps framePlayhead_def jsmod_def trunc_def)

text \<open>
  Claim C1, as amended. In the sketch with scrub sliders, after any run of events, when the
  duration changes to a positive \<open>d\<close> while the scrub value is \<open>s\<close>, every animation frame
  that follows, with elapsed time \<open>e\<close>, emits \<open>(s + (e mod (d * 1000)) / (d * 1000)) mod 1\<close>,
  and nothing else is emitted; the remainder operator is the mathematical one on the values
  that occur (\<open>e \<ge> 0\<close>, \<open>0 \<le> s \<le> 1\<close>). If the duration was 0 before the change, the
  last playhead emitted before it is \<open>s\<close>. While \<open>s + e / (d * 1000)\<close> is below 1 the playhead
  is \<open>s + e / (d * 1000)\<close>: for a scrub value below 1 the first frames show a playhead near
  \<open>s\<close>, not a reset to 0. For the scrub value 1 the playhead is \<open>e / (d * 1000)\<close> while \<open>e\<close> is
  below the period: it starts from 0, which is 1 modulo 1.
\<close>

theorem scrub_resume:
  assumes "list_all frame_event_ok evs" and "0 < d"
  shows "frame_stream (evs @ TimelineChange d # map AnimationFrame es) =
           frame_stream evs @
           map (\<lambda>e. jsmod (scrub_value evs + jsmod e (d * 1000) / (d * 1000)) 1) es
       \<and> (latest_duration evs = 0 \<longrightarrow> last (frame_stream evs) = scrub_value evs)
       \<and> 0 \<le> scrub_value evs \<and> scrub_value evs \<le> 1
       \<and> (0 \<le> e \<longrightarrow>
            jsmod e (d * 1000) = e - (d * 1000) * of_int \<lfloor>e / (d * 1000)\<rfloor>
          \<and> jsmod (scrub_value evs + jsmod e (d * 1000) / (d * 1000)) 1 =
              frac (scrub_value evs + jsmod e (d * 1000) / (d * 1000)))
       \<and> (0 \<le> e \<and> scrub_value evs + e / (d * 1000) < 1 \<longrightarrow>
            jsmod (scrub_value evs + jsmod e (d * 1000) / (d * 1000)) 1 =
              scrub_value evs + e / (d * 1000))
       \<and> (0 \<le> e \<and> e < d * 1000 \<and> scrub_value evs = 1 \<longrightarrow>
            jsmod (scrub_value evs + jsmod e (d * 1000) / (d * 1000)) 1 = e / (d * 1000))"
proof -
  have m: "0 < d * 1000" using assms(2) by simp
  have s0: "0 \<le> scrub_value evs" and s1: "scrub_value evs \<le> 1"
    by (rule scrub_value_range)+
  have 1: "frame_stream (evs @ TimelineChange d # map AnimationFrame es) =
           frame_stream evs @
           map (\<lambda>e. jsmod (scrub_value evs + jsmod e (d * 1000) / (d * 1000)) 1) es"
    using assms(2) frame_stream_switch [of d evs es] by (simp add: framePlayhead_def)
  have 2: "latest_duration evs = 0 \<longrightarrow> last (frame_stream evs) = scrub_value evs"
    by (simp add: last_frame_stream_static)
  have 4: "0 \<le> e \<longrightarrow>
            jsmod e (d * 1000) = e - (d * 1000) * of_int \<lfloor>e / (d * 1000)\<rfloor>
          \<and> jsmod (scrub_value evs + jsmod e (d * 1000) / (d * 1000)) 1 =
              frac (scrub_value evs + jsmod e (d * 1000) / (d * 1000))"
  proof
    assume e: "0 \<le> e"
    have a: "jsmod e (d * 1000) = e - (d * 1000) * of_int \<lfloor>e / (d * 1000)\<rfloor>"
      using e m by (rule jsmod_nonneg)
    have "0 \<le> jsmod e (d * 1000)" using e m by (rule jsmod_nonneg)
    then have "0 \<le> scrub_value evs + jsmod e (d * 1000) / (d * 1000)"
      using s0 m by simp
    then have b: "jsmod (scrub_value evs + jsmod e (d * 1000) / (d * 1000)) 1 =
              frac (scrub_value evs + jsmod e (d * 1000) / (d * 1000))"
      by (simp add: jsmod_nonneg(1) frac_def)
    from a b show "jsmod e (d * 1000) = e - (d * 1000) * of_int \<lfloor>e / (d * 1000)\<rfloor>
          \<and> jsmod (scrub_value evs + jsmod e (d * 1000) / (d * 1000)) 1 =
              frac (scrub_value evs + jsmod e (d * 1000) / (d * 1000))"
      by (rule conjI)
  qed
  have 5: "0 \<le> e \<and> scrub_value evs + e / (d * 1000) < 1 \<longrightarrow>
            jsmod (scrub_value evs + jsmod e (d * 1000) / (d * 1000)) 1 =
              scrub_value evs + e / (d * 1000)"
    using framePlayhead_linear [OF s0 assms(2), of e] by (simp add: framePlayhead_def)
  have 6: "0 \<le> e \<and> e < d * 1000 \<and> scrub_value evs = 1 \<longrightarrow>
            jsmod (scrub_value evs + jsmod e (d * 1000) / (d * 1000)) 1 = e / (d * 1000)"
    using framePlayhead_wrap [OF assms(2), of e] by (simp add: framePlayhead_def)
  from 1 2 s0 s1 4 5 6 show ?thesis by (intro conjI)
qed

theorem scrub_resume_witness:
  "list_all frame_event_ok [SliderMouse 25 0 100]
   \<and> latest_duration [SliderMouse 25 0 100] = 0
   \<and> scrub_value [SliderMouse 25 0 100] = 1 / 4
   \<and> last (frame_stream [SliderMouse 25 0 100]) = 1 / 4
   \<and> frame_stream
       [SliderMouse 25 0 100, TimelineChange 4, AnimationFrame 0, AnimationFrame 1000,
        AnimationFrame 3500, AnimationFrame 5000] =
       [0, 1 / 4, 1 / 4, 1 / 2, 1 / 8, 1 / 2]"
proof -
  let ?evs = "[SliderMouse 25 0 100]"
  have ok: "list_all frame_event_ok ?evs" by simp
  have d: "(0::real) < 4" by simp
  have ld: "latest_duration ?evs = 0"
    by (simp add: latest_duration_def List.map_filter_simps)
  have sv: "scrub_value ?evs = 1 / 4"
    by (simp add: scrub_value_def List.map_filter_simps sliderValueOf_def clamp_def)
  note t = scrub_resume [OF ok d, where es = "[0, 1000, 3500, 5000]"]
  from t ld have l: "last (frame_stream ?evs) = scrub_value ?evs" by blast
  from t have "frame_stream (?evs @ TimelineChange 4 # map AnimationFrame [0, 1000, 3500, 5000]) =
           frame_stream ?evs @
           map (\<lambda>e. jsmod (scrub_value ?evs + jsmod e (4 * 1000) / (4 * 1000)) 1)
             [0, 1000, 3500, 5000]"
    by blast
  moreover have "frame_stream ?evs = [0, 1 / 4]"
    by (simp add: frame_stream_def frame_init_def frame_emit_def sliderValueOf_def clamp_def
        Let_def)
  moreover have "map (\<lambda>e. jsmod (1 / 4 + jsmod e (4 * 1000) / (4 * 1000)) 1)
             [0, 1000, 3500, 5000] = [1 / 4, 1 / 2, 1 / 8, 1 / 2]"
    by (simp add: jsmod_def trunc_def)
  ultimately have st: "frame_stream
       [SliderMouse 25 0 100, TimelineChange 4, AnimationFrame 0, AnimationFrame 1000,
        AnimationFrame 3500, AnimationFrame 5000] =
       [0, 1 / 4, 1 / 4, 1 / 2, 1 / 8, 1 / 2]"
    by (simp only: sv append.simps list.map)
  from ok ld sv l [unfolded sv] st show ?thesis by (intro conjI)
qed

section \<open>Range of the playhead\<close>




section \<open>The reducer and the scan\<close>

lemma spread_empty: "spread acc emptyPartial = acc"
  by (simp add: spread_def emptyPartial_def)

lemma spread_update: "spread acc (updatePaneParam e) = write_field e acc"
  by (cases e) (simp_all add: spread_def emptyPartial_def)

lemma scan_foldl: "n < length vs \<Longrightarrow> scan f acc vs ! n = foldl f acc (take (Suc n) vs)"
proof (induction vs arbitrary: acc n)
  case Nil
  then show ?case by simp
next
  case (Cons v vs)
  then show ?case by (cases n) simp_all
qed

lemma length_scan: "length (scan f acc vs) = length vs"
  by (induction vs arbitrary: acc) simp_all

lemma values_stream_nth:
  assumes "n \<le> length edits"
  shows "values_stream edits ! n = foldl (\<lambda>s e. write_field e s) paneParams (take n edits)"
proof -
  have "values_stream edits ! n =
      foldl spread paneParams (take (Suc n) (emptyPartial # map updatePaneParam edits))"
    unfolding values_stream_def controlSubject_def using assms by (intro scan_foldl) simp
  also have "\<dots> = foldl spread paneParams (map updatePaneParam (take n edits))"
    by (simp add: spread_empty take_map)
  also have "\<dots> = foldl (\<lambda>s e. write_field e s) paneParams (take n edits)"
    by (simp add: foldl_map spread_update)
  finally show ?thesis .
qed

lemma spreadObj_objOf: "spreadObj (objOf acc) cur = objOf (spread acc cur)"
  by (simp add: spreadObj_def objOf_def spread_def split: option.splits)

lemma populated_objOf: "populated (objOf s)"
  by (simp add: populated_def objOf_def)

lemma scan_objOf: "scan spreadObj (objOf acc) vs = map objOf (scan spread acc vs)"
  by (induction vs arbitrary: acc) (simp_all add: spreadObj_objOf)

lemma values_objects_typed: "values_objects edits = map objOf (values_stream edits)"
  by (simp add: values_objects_def values_stream_def scan_objOf)

lemma values_objects_populated: "list_all populated (values_objects edits)"
  by (simp add: values_objects_typed list_all_iff populated_objOf)

lemma field_of_write_field:
  "field_of k (write_field e s) = (if edit_key e = k then edit_val e else field_of k s)"
  by (cases e; cases k) simp_all

lemma field_of_foldl:
  "field_of k (foldl (\<lambda>s e. write_field e s) s0 edits) =
     (case filter (\<lambda>e. edit_key e = k) (rev edits) of
        [] \<Rightarrow> field_of k s0
      | e # _ \<Rightarrow> edit_val e)"
proof (induction edits rule: rev_induct)
  case Nil
  then show ?case by simp
next
  case (snoc e edits)
  then show ?case by (simp add: field_of_write_field)
qed

section \<open>Folding the edits\<close>

text \<open>
  Claim C7. The parameter stream starts from the default snapshot and folds every edit of
  one field by record merge: each edit yields one snapshot, which is the previous one with
  the edited field written; so after any sequence of edits a field holds the value the most
  recent edit of it wrote, or its default when no edit named it, and every other field keeps
  its value. Read on the objects of the run time, whose fields may be absent, the same
  scan yields exactly the objects of these typed snapshots, and each of them is populated:
  no field is ever absent.
\<close>

theorem values_stream_fold:
  "length (values_stream edits) = Suc (length edits)
   \<and> values_stream edits ! 0 = paneParams
   \<and> (\<forall>n < length edits.
         values_stream edits ! Suc n = write_field (edits ! n) (values_stream edits ! n))
   \<and> (\<forall>n < length edits. \<forall>k.
         field_of k (values_stream edits ! Suc n) =
           (if edit_key (edits ! n) = k then edit_val (edits ! n)
            else field_of k (values_stream edits ! n)))
   \<and> (\<forall>n \<le> length edits. \<forall>k.
         field_of k (values_stream edits ! n) = last_write k (take n edits))
   \<and> values_objects edits = map objOf (values_stream edits)
   \<and> list_all populated (values_objects edits)"
proof (intro conjI allI impI)
  show "length (values_stream edits) = Suc (length edits)"
    by (simp add: values_stream_def controlSubject_def length_scan)
  show "values_stream edits ! 0 = paneParams"
    by (simp add: values_stream_nth)
next
  fix n assume n: "n < length edits"
  then show step: "values_stream edits ! Suc n = write_field (edits ! n) (values_stream edits ! n)"
    by (simp add: values_stream_nth take_Suc_conv_app_nth)
  fix k
  show "field_of k (values_stream edits ! Suc n) =
           (if edit_key (edits ! n) = k then edit_val (edits ! n)
            else field_of k (values_stream edits ! n))"
    unfolding step by (rule field_of_write_field)
next
  fix n k assume "n \<le> length edits"
  then show "field_of k (values_stream edits ! n) = last_write k (take n edits)"
    by (simp add: values_stream_nth field_of_foldl last_write_def)
next
  show "values_objects edits = map objOf (values_stream edits)"
    by (rule values_objects_typed)
  show "list_all populated (values_objects edits)"
    by (rule values_objects_populated)
qed

theorem values_stream_fold_witness:
  "values_stream [EditColor2 ''#fff'', EditHeight 100, EditColor2 ''#abc''] =
     [paneParams,
      paneParams\<lparr>color2 := ''#fff''\<rparr>,
      paneParams\<lparr>height := 100, color2 := ''#fff''\<rparr>,
      paneParams\<lparr>height := 100, color2 := ''#abc''\<rparr>]
   \<and> list_all populated (values_objects [EditColor2 ''#fff'', EditHeight 100, EditColor2 ''#abc''])"
proof -
  let ?es = "[EditColor2 ''#fff'', EditHeight 100, EditColor2 ''#abc'']"
  note t = values_stream_fold [of ?es]
  from t have pop: "list_all populated (values_objects ?es)" by blast
  from t have len: "length (values_stream ?es) = 4" by simp
  from t have 0: "values_stream ?es ! 0 = paneParams" by blast
  from t have step: "\<forall>n < length ?es.
         values_stream ?es ! Suc n = write_field (?es ! n) (values_stream ?es ! n)" by blast
  from step [rule_format, of 0] 0 have 1: "values_stream ?es ! 1 = paneParams\<lparr>color2 := ''#fff''\<rparr>"
    by simp
  from step [rule_format, of 1] 1 have 2:
    "values_stream ?es ! 2 = paneParams\<lparr>height := 100, color2 := ''#fff''\<rparr>"
    by (simp add: numeral_2_eq_2)
  from step [rule_format, of 2] 2 have 3:
    "values_stream ?es ! 3 = paneParams\<lparr>height := 100, color2 := ''#abc''\<rparr>"
    by (simp add: numeral_3_eq_3)
  have "values_stream ?es =
     [paneParams,
      paneParams\<lparr>color2 := ''#fff''\<rparr>,
      paneParams\<lparr>height := 100, color2 := ''#fff''\<rparr>,
      paneParams\<lparr>height := 100, color2 := ''#abc''\<rparr>]"
    using len 0 1 2 3
    by (intro nth_equalityI) (auto simp: less_Suc_eq numeral_2_eq_2 numeral_3_eq_3 eval_nat_numeral)
  with pop show ?thesis by (intro conjI)
qed

end
